theory Spec2Isabelle
  imports Complex_Main
begin

section \<open>JavaScript values\<close>

text \<open>
  The client of \<^verbatim>\<open>src/index.ts\<close> handles response bodies typed \<^verbatim>\<open>any\<close>: whatever the
  server sent, after axios decoded it. They are modelled as JavaScript values. A number
  is kept as the quantity it denotes; the program only ever tests a number for
  truthiness.
\<close>

datatype number = NaN | PosInfinity | NegInfinity | Finite rat

datatype jsval =
    JUndefined
  | JNull
  | JBool bool
  | JNum number
  | JStr string
  | JArr "jsval list"
  | JObj "(string \<times> jsval) list"

text \<open>\<^verbatim>\<open>!v\<close> is \<open>\<not> truthy v\<close>: undefined, null, false, 0, NaN and the empty string are falsy.\<close>

fun truthy :: "jsval \<Rightarrow> bool" where
  "truthy JUndefined = False"
| "truthy JNull = False"
| "truthy (JBool b) = b"
| "truthy (JNum NaN) = False"
| "truthy (JNum (Finite q)) = (q \<noteq> 0)"
| "truthy (JNum PosInfinity) = True"
| "truthy (JNum NegInfinity) = True"
| "truthy (JStr s) = (s \<noteq> [])"
| "truthy (JArr xs) = True"
| "truthy (JObj kvs) = True"

fun typeof :: "jsval \<Rightarrow> string" where
  "typeof JUndefined = ''undefined''"
| "typeof JNull = ''object''"
| "typeof (JBool b) = ''boolean''"
| "typeof (JNum n) = ''number''"
| "typeof (JStr s) = ''string''"
| "typeof (JArr xs) = ''object''"
| "typeof (JObj kvs) = ''object''"

text \<open>\<^verbatim>\<open>a || b\<close>\<close>

definition js_or :: "jsval \<Rightarrow> jsval \<Rightarrow> jsval" where
  "js_or a b = (if truthy a then a else b)"

text \<open>
  A string interpolated into a template literal is itself. The constructor interpolates
  its argument only after it has checked that the argument is a string.
\<close>

fun string_value :: "jsval \<Rightarrow> string" where
  "string_value (JStr s) = s"
| "string_value v = []"

text \<open>Decimal digits of a natural number, as a template literal prints a byte count or a status.\<close>

fun show_nat :: "nat \<Rightarrow> string" where
  "show_nat n =
     (if n < 10 then [''0123456789'' ! n]
      else show_nat (n div 10) @ [''0123456789'' ! (n mod 10)])"

declare show_nat.simps [simp del]

subsection \<open>Errors\<close>

record http_response =
  status :: nat
  data :: jsval

record js_error =
  name :: string
  message :: string
  response :: "http_response option"
  isAxiosError :: bool

text \<open>\<^verbatim>\<open>new Error(msg)\<close>\<close>

definition new_Error :: "string \<Rightarrow> js_error" where
  "new_Error msg = \<lparr>name = ''Error'', message = msg, response = None, isAxiosError = False\<rparr>"

text \<open>\<^verbatim>\<open>Error.prototype.toString\<close>\<close>

definition error_toString :: "js_error \<Rightarrow> string" where
  "error_toString e =
     (if name e = [] then message e
      else if message e = [] then name e
      else name e @ '': '' @ message e)"

text \<open>\<^verbatim>\<open>${error.message || error}\<close>\<close>

definition message_or_error :: "js_error \<Rightarrow> string" where
  "message_or_error e = (if message e \<noteq> [] then message e else error_toString e)"

text \<open>
  Reading a property. The program reads \<^verbatim>\<open>url\<close>, \<^verbatim>\<open>key\<close>, \<^verbatim>\<open>ufsUrl\<close>, \<^verbatim>\<open>success\<close>,
  \<^verbatim>\<open>data\<close> and \<^verbatim>\<open>text\<close>: names that no string, number, boolean or array carries, so on
  those the read gives undefined. On null and undefined the read throws a TypeError (the
  message is the one of V8).
\<close>

definition new_TypeError :: "string \<Rightarrow> string \<Rightarrow> js_error" where
  "new_TypeError what k =
     \<lparr>name = ''TypeError'',
      message = ''Cannot read properties of '' @ what @ '' (reading '' @ [CHR 0x27] @ k @ [CHR 0x27] @ '')'',
      response = None, isAxiosError = False\<rparr>"

fun get_prop :: "jsval \<Rightarrow> string \<Rightarrow> js_error + jsval" where
  "get_prop (JObj kvs) k = Inr (case map_of kvs k of None \<Rightarrow> JUndefined | Some v \<Rightarrow> v)"
| "get_prop JUndefined k = Inl (new_TypeError ''undefined'' k)"
| "get_prop JNull k = Inl (new_TypeError ''null'' k)"
| "get_prop v k = Inr JUndefined"

text \<open>\<^verbatim>\<open>obj.k = v\<close> on a plain object: an existing key keeps its place, a new one goes last.\<close>

fun set_prop :: "(string \<times> 'v) list \<Rightarrow> string \<Rightarrow> 'v \<Rightarrow> (string \<times> 'v) list" where
  "set_prop [] k v = [(k, v)]"
| "set_prop ((k', v') # kvs) k v =
     (if k' = k then (k, v) # kvs else (k', v') # set_prop kvs k v)"

text \<open>\<^verbatim>\<open>{...a, ...b}\<close>\<close>

definition spread :: "(string \<times> 'v) list \<Rightarrow> (string \<times> 'v) list \<Rightarrow> (string \<times> 'v) list" where
  "spread a b = fold (\<lambda>(k, v) acc. set_prop acc k v) b a"

section \<open>The runtime and the world\<close>

text \<open>
  The built-ins the client calls are parameters: \<^verbatim>\<open>JSON.parse\<close> returns the parsed value or
  throws a SyntaxError, \<^verbatim>\<open>JSON.stringify\<close> returns a string or undefined.
\<close>

record runtime =
  JSON_parse :: "string \<Rightarrow> js_error + jsval"
  JSON_stringify :: "jsval \<Rightarrow> string option"
  encodeURIComponent :: "string \<Rightarrow> string"
  basename :: "string \<Rightarrow> string"

text \<open>\<^verbatim>\<open>${JSON.stringify(v)}\<close>: an undefined result prints as the word.\<close>

definition template_stringify :: "runtime \<Rightarrow> jsval \<Rightarrow> string" where
  "template_stringify rt v = (case JSON_stringify rt v of None \<Rightarrow> ''undefined'' | Some s \<Rightarrow> s)"

record file_stat =
  isFile :: bool
  file_size :: nat

record form_part =
  field :: string
  stream_of :: string
  filename :: string

datatype http_method = GET | PUT | POST

datatype body = NoBody | FormBody "form_part list" | JsonBody jsval

record request =
  http_method :: http_method
  url :: jsval
  hdrs :: "(string \<times> string) list"
  body :: body

text \<open>What a run does to the outside, in order: the requests it issues and the timers it waits on.\<close>

datatype event = Sent request | Slept nat

datatype net_outcome = Responded nat jsval | Failed js_error

text \<open>
  The world of one run: the file system, the HTTP transport (a mock transport is such a
  function; its answer may depend on what happened before) and the boundary that
  \<^verbatim>\<open>form-data\<close> draws for a multipart body.
\<close>

record world =
  files :: "string \<Rightarrow> file_stat option"
  transport :: "event list \<Rightarrow> request \<Rightarrow> net_outcome"
  boundary :: string

type_synonym 'a io = "event list \<Rightarrow> event list \<times> (js_error + 'a)"

definition return_io :: "'a \<Rightarrow> 'a io" where
  "return_io x tr = (tr, Inr x)"

definition throw_io :: "js_error \<Rightarrow> 'a io" where
  "throw_io e tr = (tr, Inl e)"

definition lift_io :: "js_error + 'a \<Rightarrow> 'a io" where
  "lift_io r tr = (tr, r)"

text \<open>\<^verbatim>\<open>const x = await m; ...\<close>\<close>

definition bind_io :: "'a io \<Rightarrow> ('a \<Rightarrow> 'b io) \<Rightarrow> 'b io" where
  "bind_io m f tr = (case m tr of (tr', Inl e) \<Rightarrow> (tr', Inl e) | (tr', Inr x) \<Rightarrow> f x tr')"

text \<open>\<^verbatim>\<open>try { m } catch (error) { h }\<close>\<close>

definition catch_io :: "'a io \<Rightarrow> (js_error \<Rightarrow> 'a io) \<Rightarrow> 'a io" where
  "catch_io m h tr = (case m tr of (tr', Inl e) \<Rightarrow> h e tr' | (tr', Inr x) \<Rightarrow> (tr', Inr x))"

text \<open>\<^verbatim>\<open>await new Promise((resolve) => setTimeout(resolve, ms))\<close>\<close>

definition sleep :: "nat \<Rightarrow> unit io" where
  "sleep ms tr = (tr @ [Slept ms], Inr ())"

definition existsSync :: "world \<Rightarrow> string \<Rightarrow> bool" where
  "existsSync w p = (files w p \<noteq> None)"

definition statSync :: "world \<Rightarrow> string \<Rightarrow> js_error + file_stat" where
  "statSync w p =
     (case files w p of
        None \<Rightarrow> Inl (new_Error (''ENOENT: no such file or directory, stat '' @ [CHR 0x27] @ p @ [CHR 0x27]))
      | Some st \<Rightarrow> Inr st)"

text \<open>
  An axios call issues the request. With axios's default \<^verbatim>\<open>validateStatus\<close> the promise
  resolves on a status from 200 to 299 and rejects with an AxiosError carrying the
  response on any other; a transport failure rejects with the error of the transport.
\<close>

definition validateStatus :: "nat \<Rightarrow> bool" where
  "validateStatus st = (200 \<le> st \<and> st < 300)"

definition axios_request :: "world \<Rightarrow> request \<Rightarrow> http_response io" where
  "axios_request w rq tr =
     (tr @ [Sent rq],
      case transport w tr rq of
        Failed e \<Rightarrow> Inl e
      | Responded st d \<Rightarrow>
          if validateStatus st then Inr \<lparr>status = st, data = d\<rparr>
          else Inl \<lparr>name = ''AxiosError'',
                    message = ''Request failed with status code '' @ show_nat st,
                    response = Some \<lparr>status = st, data = d\<rparr>,
                    isAxiosError = True\<rparr>)"

section \<open>Img2TxtClient\<close>

record client =
  baseUrl :: string
  headers :: "(string \<times> string) list"

definition constructor :: "jsval \<Rightarrow> client io" where
  "constructor apiKey =
     (if \<not> truthy apiKey \<or> typeof apiKey \<noteq> ''string''
      then throw_io (new_Error ''API Key is required and must be a string.'')
      else return_io \<lparr>baseUrl = ''https://img2txt.io/api/'',
                      headers = [(''Authorization'', ''Bearer '' @ string_value apiKey)]\<rparr>)"

subsection \<open>getUploadUrl\<close>

definition upload_url_request :: "runtime \<Rightarrow> client \<Rightarrow> string \<Rightarrow> nat \<Rightarrow> request" where
  "upload_url_request rt c filePath fileSize =
     (let fileName = basename rt filePath
      in \<lparr>http_method = GET,
          url = JStr (baseUrl c @ ''get-upload-url?name='' @ encodeURIComponent rt fileName
                      @ ''&size='' @ show_nat fileSize),
          hdrs = headers c,
          body = NoBody\<rparr>)"

text \<open>The body of the \<^verbatim>\<open>try\<close> after the response has arrived.\<close>

definition check_upload_info :: "http_response \<Rightarrow> js_error + jsval" where
  "check_upload_info resp =
     (case get_prop (data resp) ''url'' of
        Inl e \<Rightarrow> Inl e
      | Inr u \<Rightarrow>
          if \<not> truthy u
          then Inl (new_Error (''Invalid upload-url response: Missing URL or Key. Status: ''
                               @ show_nat (status resp)))
          else (case get_prop (data resp) ''key'' of
                  Inl e \<Rightarrow> Inl e
                | Inr k \<Rightarrow>
                    if \<not> truthy k
                    then Inl (new_Error (''Invalid upload-url response: Missing URL or Key. Status: ''
                                         @ show_nat (status resp)))
                    else Inr (data resp)))"

text \<open>\<^verbatim>\<open>fs.statSync(filePath).size\<close> is read before the \<^verbatim>\<open>try\<close>: an error of it is not wrapped.\<close>

definition getUploadUrl :: "runtime \<Rightarrow> world \<Rightarrow> client \<Rightarrow> string \<Rightarrow> jsval io" where
  "getUploadUrl rt w c filePath =
     bind_io (lift_io (statSync w filePath)) (\<lambda>st.
       catch_io
         (bind_io (axios_request w (upload_url_request rt c filePath (file_size st))) (\<lambda>resp.
            lift_io (check_upload_info resp)))
         (\<lambda>error. throw_io (new_Error (''Failed to get upload URL: '' @ message_or_error error))))"

subsection \<open>uploadFile\<close>

text \<open>
  The form has one part, the stream of the file under the name \<^verbatim>\<open>file\<close>. The request is
  sent with no limit on the length of the body; \<^verbatim>\<open>form.getHeaders()\<close> gives the content
  type with the boundary.
\<close>

definition form_getHeaders :: "world \<Rightarrow> (string \<times> string) list" where
  "form_getHeaders w = [(''content-type'', ''multipart/form-data; boundary='' @ boundary w)]"

definition upload_request :: "runtime \<Rightarrow> world \<Rightarrow> client \<Rightarrow> jsval \<Rightarrow> string \<Rightarrow> request" where
  "upload_request rt w c uploadUrl filePath =
     (let fileName = basename rt filePath;
          form = [\<lparr>field = ''file'', stream_of = filePath, filename = fileName\<rparr>]
      in \<lparr>http_method = PUT,
          url = uploadUrl,
          hdrs = spread (headers c) (form_getHeaders w),
          body = FormBody form\<rparr>)"

text \<open>The body of the \<^verbatim>\<open>try\<close> after the response has arrived.\<close>

definition check_upload :: "http_response \<Rightarrow> js_error + jsval" where
  "check_upload resp =
     (case get_prop (data resp) ''ufsUrl'' of
        Inl e \<Rightarrow> Inl e
      | Inr u \<Rightarrow>
          if \<not> truthy u
          then Inl (new_Error (''Invalid upload response: Missing UFS URL. Status: ''
                               @ show_nat (status resp)))
          else Inr u)"

definition uploadFile :: "runtime \<Rightarrow> world \<Rightarrow> client \<Rightarrow> jsval \<Rightarrow> string \<Rightarrow> jsval io" where
  "uploadFile rt w c uploadUrl filePath =
     catch_io
       (bind_io (axios_request w (upload_request rt w c uploadUrl filePath)) (\<lambda>resp.
          lift_io (check_upload resp)))
       (\<lambda>error. throw_io (new_Error (''Failed to upload file: '' @ message_or_error error)))"

subsection \<open>imageToText\<close>

text \<open>A parameter with a default takes it when the argument is undefined.\<close>

definition default_arg :: "string \<Rightarrow> string option \<Rightarrow> string" where
  "default_arg d a = (case a of None \<Rightarrow> d | Some s \<Rightarrow> s)"

text \<open>
  The payload, built before the \<^verbatim>\<open>try\<close> of the request: a malformed output structure
  throws here, outside that \<^verbatim>\<open>try\<close>.
\<close>

definition build_payload ::
  "runtime \<Rightarrow> jsval \<Rightarrow> string \<Rightarrow> string \<Rightarrow> string \<Rightarrow> js_error + (string \<times> jsval) list" where
  "build_payload rt imageUrl outputType description outputStructure =
     (let payload = [(''imageUrl'', imageUrl), (''outputType'', JStr outputType)];
          payload = (if description \<noteq> [] then set_prop payload ''description'' (JStr description)
                     else payload)
      in if outputStructure \<noteq> [] then
           (case JSON_parse rt outputStructure of
              Inl err \<Rightarrow> Inl (new_Error (''outputStructure must be valid JSON: '' @ message err))
            | Inr parsed \<Rightarrow>
                Inr (set_prop payload ''outputStructure''
                       (case JSON_stringify rt parsed of None \<Rightarrow> JUndefined | Some s \<Rightarrow> JStr s)))
         else Inr payload)"

definition extraction_request :: "client \<Rightarrow> (string \<times> jsval) list \<Rightarrow> request" where
  "extraction_request c payload =
     \<lparr>http_method = POST,
      url = JStr (baseUrl c @ ''image-to-text''),
      hdrs = spread (headers c) [(''Content-Type'', ''application/json'')],
      body = JsonBody (JObj payload)\<rparr>"

text \<open>
  The body of the \<^verbatim>\<open>try\<close> after the response has arrived. \<^verbatim>\<open>data.success === false\<close> holds
  of an object only, so the reads of \<^verbatim>\<open>data.data\<close> and \<^verbatim>\<open>data.text\<close> that follow cannot
  throw, and \<^verbatim>\<open>data.data || data.text || data\<close> is the first truthy one of the three. The
  error thrown here is thrown inside the \<^verbatim>\<open>try\<close>: the \<^verbatim>\<open>catch\<close> of \<^verbatim>\<open>imageToText\<close> receives
  it like any other.
\<close>

definition check_extraction :: "runtime \<Rightarrow> http_response \<Rightarrow> js_error + jsval" where
  "check_extraction rt resp =
     (case get_prop (data resp) ''success'' of
        Inl e \<Rightarrow> Inl e
      | Inr s \<Rightarrow>
          if s = JBool False then
            (case get_prop (data resp) ''data'' of
               Inl e \<Rightarrow> Inl e
             | Inr d \<Rightarrow>
                 (case get_prop (data resp) ''text'' of
                    Inl e \<Rightarrow> Inl e
                  | Inr t \<Rightarrow>
                      Inl (new_Error (''Processing failed: ''
                             @ template_stringify rt (js_or (js_or d t) (data resp))))))
          else Inr (data resp))"

text \<open>The \<^verbatim>\<open>catch\<close> clause: \<^verbatim>\<open>axios.isAxiosError(error) && error.response\<close> or else.\<close>

definition extraction_handler :: "runtime \<Rightarrow> js_error \<Rightarrow> js_error" where
  "extraction_handler rt error =
     (if isAxiosError error then
        (case response error of
           Some r \<Rightarrow>
             new_Error (''API call failed: '' @ show_nat (status r) @ '' - ''
                        @ template_stringify rt (data r))
         | None \<Rightarrow> new_Error (''Failed to process image: '' @ message_or_error error))
      else new_Error (''Failed to process image: '' @ message_or_error error))"

definition imageToText ::
  "runtime \<Rightarrow> world \<Rightarrow> client \<Rightarrow> jsval \<Rightarrow> string option \<Rightarrow> string option \<Rightarrow> string option
     \<Rightarrow> jsval io" where
  "imageToText rt w c imageUrl outputType description outputStructure =
     bind_io (lift_io (build_payload rt imageUrl (default_arg ''raw'' outputType)
                         (default_arg [] description) (default_arg [] outputStructure)))
       (\<lambda>payload.
          catch_io
            (bind_io (axios_request w (extraction_request c payload)) (\<lambda>resp.
               lift_io (check_extraction rt resp)))
            (\<lambda>error. throw_io (extraction_handler rt error)))"

subsection \<open>process\<close>

text \<open>
  The three awaited steps stand inside the \<^verbatim>\<open>try\<close>. The last statement of the \<^verbatim>\<open>try\<close> is
  \<^verbatim>\<open>return this.imageToText(...)\<close>, without \<^verbatim>\<open>await\<close>: the call starts the third phase and
  hands its pending promise back, the \<^verbatim>\<open>try\<close> block is left, and the promise of
  \<^verbatim>\<open>process\<close> later settles the way that one does. A rejection of the third phase
  therefore does not pass through the \<^verbatim>\<open>catch\<close> clause.
\<close>

definition upload_steps :: "runtime \<Rightarrow> world \<Rightarrow> client \<Rightarrow> string \<Rightarrow> jsval io" where
  "upload_steps rt w c imagePath =
     bind_io (getUploadUrl rt w c imagePath) (\<lambda>uploadInfo.
       bind_io (lift_io (get_prop uploadInfo ''url'')) (\<lambda>uploadUrl.
         bind_io (uploadFile rt w c uploadUrl imagePath) (\<lambda>ufsUrl.
           bind_io (sleep 200) (\<lambda>_. return_io ufsUrl))))"

definition process ::
  "runtime \<Rightarrow> world \<Rightarrow> client \<Rightarrow> string \<Rightarrow> string option \<Rightarrow> string option \<Rightarrow> string option
     \<Rightarrow> jsval io" where
  "process rt w c imagePath outputType description outputStructure =
     (if \<not> existsSync w imagePath then
        throw_io (new_Error (''File not found or is not a file: '' @ imagePath))
      else
        bind_io (lift_io (statSync w imagePath)) (\<lambda>st.
          if \<not> isFile st then
            throw_io (new_Error (''File not found or is not a file: '' @ imagePath))
          else
            bind_io
              (catch_io (upload_steps rt w c imagePath)
                 (\<lambda>error. throw_io (new_Error (''Image processing failed: ''
                                                 @ message_or_error error))))
              (\<lambda>ufsUrl. imageToText rt w c ufsUrl
                           (Some (default_arg ''raw'' outputType))
                           (Some (default_arg [] description))
                           (Some (default_arg [] outputStructure)))))"

section \<open>The order of the phases\<close>

text \<open>
  The order the specification gives for one run: the request for the upload destination,
  the upload, the wait of 200 ms, the extraction call. A run that stops early leaves a
  beginning of this sequence.
\<close>

fun phase_order :: "event list \<Rightarrow> bool" where
  "phase_order [] = True"
| "phase_order [Sent a] = (http_method a = GET)"
| "phase_order [Sent a, Sent b] = (http_method a = GET \<and> http_method b = PUT)"
| "phase_order [Sent a, Sent b, Slept n] =
     (http_method a = GET \<and> http_method b = PUT \<and> n = 200)"
| "phase_order [Sent a, Sent b, Slept n, Sent c] =
     (http_method a = GET \<and> http_method b = PUT \<and> n = 200 \<and> http_method c = POST)"
| "phase_order evs = False"

section \<open>An example runtime and a mock transport\<close>

text \<open>
  The examples below run the client in a small world: one image file and one directory,
  and a mock transport that answers each of the three calls with a fixed outcome.
  \<^verbatim>\<open>JSON.parse\<close> and \<^verbatim>\<open>JSON.stringify\<close> are given on the texts and values the examples
  use: the array text parses, the malformed text does not (on any other text the example
  parser answers as on the malformed one, and the example printer answers undefined on a
  value outside its table). The file name of the examples has no character that
  \<^verbatim>\<open>encodeURIComponent\<close> escapes, and its path no trailing separator.
\<close>

definition example_syntax_error :: js_error where
  "example_syntax_error =
     \<lparr>name = ''SyntaxError'',
      message = ''Expected property name or '' @ [CHR 0x27] @ ''}'' @ [CHR 0x27]
                @ '' in JSON at position 1'',
      response = None, isAxiosError = False\<rparr>"

definition example_JSON_parse :: "string \<Rightarrow> js_error + jsval" where
  "example_JSON_parse s =
     (if s = ''[1, 2]'' then Inr (JArr [JNum (Finite 1), JNum (Finite 2)])
      else Inl example_syntax_error)"

definition example_JSON_stringify :: "jsval \<Rightarrow> string option" where
  "example_JSON_stringify v =
     map_of [(JArr [JNum (Finite 1), JNum (Finite 2)], ''[1,2]''),
             (JStr ''no credits'', [CHR 0x22] @ ''no credits'' @ [CHR 0x22])] v"

definition example_runtime :: runtime where
  "example_runtime =
     \<lparr>JSON_parse = example_JSON_parse,
      JSON_stringify = example_JSON_stringify,
      encodeURIComponent = (\<lambda>s. s),
      basename = (\<lambda>p. rev (takeWhile (\<lambda>ch. ch \<noteq> CHR ''/'') (rev p)))\<rparr>"

definition example_files :: "string \<Rightarrow> file_stat option" where
  "example_files =
     map_of [(''/tmp/plane2.png'', \<lparr>isFile = True, file_size = 2048\<rparr>),
             (''/tmp'', \<lparr>isFile = False, file_size = 4096\<rparr>)]"

definition mock_transport ::
  "net_outcome \<Rightarrow> net_outcome \<Rightarrow> net_outcome \<Rightarrow> event list \<Rightarrow> request \<Rightarrow> net_outcome" where
  "mock_transport on_get on_put on_post tr rq =
     (case http_method rq of GET \<Rightarrow> on_get | PUT \<Rightarrow> on_put | POST \<Rightarrow> on_post)"

definition mock_world :: "net_outcome \<Rightarrow> net_outcome \<Rightarrow> net_outcome \<Rightarrow> world" where
  "mock_world on_get on_put on_post =
     \<lparr>files = example_files,
      transport = mock_transport on_get on_put on_post,
      boundary = ''--------------------------974767299852498929531610''\<rparr>"

definition example_client :: client where
  "example_client =
     \<lparr>baseUrl = ''https://img2txt.io/api/'',
      headers = [(''Authorization'', ''Bearer API_KEY_HERE'')]\<rparr>"

definition upload_url_ok :: net_outcome where
  "upload_url_ok =
     Responded 200 (JObj [(''url'', JStr ''https://storage.example/put/k1''), (''key'', JStr ''k1'')])"


definition upload_ok :: net_outcome where
  "upload_ok = Responded 200 (JObj [(''ufsUrl'', JStr ''https://storage.example/f/k1'')])"


definition extraction_ok :: net_outcome where
  "extraction_ok = Responded 200 (JObj [(''success'', JBool True), (''text'', JStr ''LAX'')])"

definition extraction_refused :: net_outcome where
  "extraction_refused =
     Responded 200 (JObj [(''success'', JBool False), (''text'', JStr ''no credits'')])"

definition extraction_string_false :: net_outcome where
  "extraction_string_false =
     Responded 200 (JObj [(''success'', JStr ''false''), (''text'', JStr ''LAX'')])"

definition extraction_null :: net_outcome where
  "extraction_null = Responded 200 JNull"

definition network_error :: js_error where
  "network_error =
     \<lparr>name = ''AxiosError'', message = ''Network Error'', response = None, isAxiosError = True\<rparr>"


section \<open>Facts about the single steps\<close>

lemma new_Error_sel [simp]:
  "message (new_Error m) = m" "name (new_Error m) = ''Error''"
  "response (new_Error m) = None" "isAxiosError (new_Error m) = False"
  by (simp_all add: new_Error_def)

lemma message_or_error_new_Error [simp]: "m \<noteq> [] \<Longrightarrow> message_or_error (new_Error m) = m"
  by (simp add: message_or_error_def)

lemma default_arg_Some [simp]: "default_arg dflt (Some s) = s"
  by (simp add: default_arg_def)


lemmas io_defs = bind_io_def lift_io_def catch_io_def throw_io_def return_io_def sleep_def

lemmas request_defs = upload_url_request_def upload_request_def extraction_request_def

subsection \<open>The request for the upload destination\<close>

lemma getUploadUrl_ok:
  assumes "files w p = Some st"
    and "transport w tr (upload_url_request rt c p (file_size st)) = Responded s1 d1"
    and "validateStatus s1"
    and "get_prop d1 ''url'' = Inr u" "truthy u"
    and "get_prop d1 ''key'' = Inr k" "truthy k"
  shows "getUploadUrl rt w c p tr = (tr @ [Sent (upload_url_request rt c p (file_size st))], Inr d1)"
  using assms
  by (simp add: getUploadUrl_def io_defs statSync_def axios_request_def check_upload_info_def)


lemma getUploadUrl_failed:
  assumes "files w p = Some st"
    and "transport w tr (upload_url_request rt c p (file_size st)) = Failed e"
  shows "getUploadUrl rt w c p tr =
           (tr @ [Sent (upload_url_request rt c p (file_size st))],
            Inl (new_Error (''Failed to get upload URL: '' @ message_or_error e)))"
  using assms
  by (simp add: getUploadUrl_def io_defs statSync_def axios_request_def)



subsection \<open>The upload\<close>

lemma uploadFile_ok:
  assumes "transport w tr (upload_request rt w c u p) = Responded s2 d2"
    and "validateStatus s2"
    and "get_prop d2 ''ufsUrl'' = Inr ufs" "truthy ufs"
  shows "uploadFile rt w c u p tr = (tr @ [Sent (upload_request rt w c u p)], Inr ufs)"
  using assms
  by (simp add: uploadFile_def io_defs axios_request_def check_upload_def)



subsection \<open>The extraction call\<close>

lemma build_payload_ok:
  assumes "os \<noteq> [] \<longrightarrow> JSON_parse rt os = Inr parsed"
  shows "build_payload rt img ot d os =
           Inr ([(''imageUrl'', img), (''outputType'', JStr ot)]
                @ (if d = [] then [] else [(''description'', JStr d)])
                @ (if os = [] then []
                   else [(''outputStructure'',
                          case JSON_stringify rt parsed of None \<Rightarrow> JUndefined | Some s \<Rightarrow> JStr s)]))"
  using assms by (simp add: build_payload_def)

lemma build_payload_invalid:
  assumes "os \<noteq> []" "JSON_parse rt os = Inl err"
  shows "build_payload rt img ot d os =
           Inl (new_Error (''outputStructure must be valid JSON: '' @ message err))"
  using assms by (simp add: build_payload_def)

lemma imageToText_invalid:
  assumes "default_arg [] os \<noteq> []" "JSON_parse rt (default_arg [] os) = Inl err"
  shows "imageToText rt w c img ot d os tr =
           (tr, Inl (new_Error (''outputStructure must be valid JSON: '' @ message err)))"
  using build_payload_invalid[OF assms]
  by (simp add: imageToText_def io_defs)

lemma imageToText_ok:
  assumes "build_payload rt img (default_arg ''raw'' ot) (default_arg [] d) (default_arg [] os)
             = Inr payload"
    and "transport w tr (extraction_request c payload) = Responded s3 d3"
    and "validateStatus s3"
    and "get_prop d3 ''success'' = Inr sv" "sv \<noteq> JBool False"
  shows "imageToText rt w c img ot d os tr = (tr @ [Sent (extraction_request c payload)], Inr d3)"
  using assms
  by (simp add: imageToText_def io_defs axios_request_def check_extraction_def)

lemma imageToText_success_false:
  assumes "build_payload rt img (default_arg ''raw'' ot) (default_arg [] d) (default_arg [] os)
             = Inr payload"
    and "transport w tr (extraction_request c payload) = Responded s3 d3"
    and "get_prop d3 ''success'' = Inr (JBool False)"
    and "get_prop d3 ''data'' = Inr dd" "get_prop d3 ''text'' = Inr dt"
  shows "imageToText rt w c img ot d os tr =
           (tr @ [Sent (extraction_request c payload)],
            Inl (new_Error
                  (if validateStatus s3
                   then ''Failed to process image: Processing failed: ''
                        @ template_stringify rt (js_or (js_or dd dt) d3)
                   else ''API call failed: '' @ show_nat s3 @ '' - '' @ template_stringify rt d3)))"
  using assms
  by (simp add: imageToText_def io_defs axios_request_def check_extraction_def
      extraction_handler_def)

lemma imageToText_trace:
  assumes "build_payload rt img (default_arg ''raw'' ot) (default_arg [] d) (default_arg [] os)
             = Inr payload"
  shows "fst (imageToText rt w c img ot d os tr) = tr @ [Sent (extraction_request c payload)]"
  using assms
  by (simp add: imageToText_def io_defs axios_request_def split: prod.splits sum.splits)

subsection \<open>The orchestration\<close>

lemma upload_steps_ok:
  assumes "files w p = Some st"
    and "transport w tr (upload_url_request rt c p (file_size st)) = Responded s1 d1"
    and "validateStatus s1"
    and "get_prop d1 ''url'' = Inr u" "truthy u"
    and "get_prop d1 ''key'' = Inr k" "truthy k"
    and "transport w (tr @ [Sent (upload_url_request rt c p (file_size st))])
           (upload_request rt w c u p) = Responded s2 d2"
    and "validateStatus s2"
    and "get_prop d2 ''ufsUrl'' = Inr ufs" "truthy ufs"
  shows "upload_steps rt w c p tr =
           (tr @ [Sent (upload_url_request rt c p (file_size st)),
                  Sent (upload_request rt w c u p), Slept 200], Inr ufs)"
  using getUploadUrl_ok[OF assms(1-7)] uploadFile_ok[OF assms(8-11)] assms(4)
  by (simp add: upload_steps_def io_defs)

lemma process_upload_failed:
  assumes "files w p = Some st" "isFile st"
    and "upload_steps rt w c p tr = (tr', Inl e)"
  shows "process rt w c p ot d os tr =
           (tr', Inl (new_Error (''Image processing failed: '' @ message_or_error e)))"
  using assms
  by (simp add: process_def io_defs existsSync_def statSync_def)

lemma process_after_upload:
  assumes "files w p = Some st" "isFile st"
    and "upload_steps rt w c p tr = (tr', Inr ufs)"
  shows "process rt w c p ot d os tr =
           imageToText rt w c ufs (Some (default_arg ''raw'' ot)) (Some (default_arg [] d))
             (Some (default_arg [] os)) tr'"
  using assms
  by (simp add: process_def io_defs existsSync_def statSync_def)

lemma process_reaches_extraction:
  assumes "files w p = Some st" "isFile st"
    and "transport w tr (upload_url_request rt c p (file_size st)) = Responded s1 d1"
    and "validateStatus s1"
    and "get_prop d1 ''url'' = Inr u" "truthy u"
    and "get_prop d1 ''key'' = Inr k" "truthy k"
    and "transport w (tr @ [Sent (upload_url_request rt c p (file_size st))])
           (upload_request rt w c u p) = Responded s2 d2"
    and "validateStatus s2"
    and "get_prop d2 ''ufsUrl'' = Inr ufs" "truthy ufs"
  shows "process rt w c p ot d os tr =
           imageToText rt w c ufs (Some (default_arg ''raw'' ot)) (Some (default_arg [] d))
             (Some (default_arg [] os))
             (tr @ [Sent (upload_url_request rt c p (file_size st)),
                    Sent (upload_request rt w c u p), Slept 200])"
  by (rule process_after_upload[OF assms(1,2) upload_steps_ok[OF assms(1) assms(3-12)]])

text \<open>Whatever happens, a run adds to the log a beginning of one fixed sequence.\<close>

lemma process_trace_cases:
  "\<exists>evs. fst (process rt w c p ot d os tr) = tr @ evs \<and>
     (evs = []
      \<or> (\<exists>n. evs = [Sent (upload_url_request rt c p n)])
      \<or> (\<exists>n u. evs = [Sent (upload_url_request rt c p n), Sent (upload_request rt w c u p)])
      \<or> (\<exists>n u. evs = [Sent (upload_url_request rt c p n), Sent (upload_request rt w c u p),
                        Slept 200])
      \<or> (\<exists>n u payload. evs = [Sent (upload_url_request rt c p n),
                                Sent (upload_request rt w c u p), Slept 200,
                                Sent (extraction_request c payload)]))"
  by (auto simp: process_def upload_steps_def getUploadUrl_def uploadFile_def imageToText_def
      io_defs axios_request_def existsSync_def statSync_def
      split: option.splits sum.splits prod.splits if_splits)

subsection \<open>The example world\<close>

lemma example_files_plane2:
  "files (mock_world on_get on_put on_post) ''/tmp/plane2.png''
     = Some \<lparr>isFile = True, file_size = 2048\<rparr>"
  by (simp add: mock_world_def example_files_def)

lemma example_transport_get:
  "transport (mock_world on_get on_put on_post) tr (upload_url_request rt c p n) = on_get"
  by (simp add: mock_world_def mock_transport_def upload_url_request_def)

lemma example_transport_put:
  "transport (mock_world on_get on_put on_post) tr (upload_request rt w c u p) = on_put"
  by (simp add: mock_world_def mock_transport_def upload_request_def)

lemma example_transport_post:
  "transport (mock_world on_get on_put on_post) tr (extraction_request c payload) = on_post"
  by (simp add: mock_world_def mock_transport_def extraction_request_def)

lemma example_upload_steps:
  "upload_steps example_runtime (mock_world upload_url_ok upload_ok on_post) example_client
     ''/tmp/plane2.png'' [] =
   ([Sent (upload_url_request example_runtime example_client ''/tmp/plane2.png'' 2048),
     Sent (upload_request example_runtime (mock_world upload_url_ok upload_ok on_post)
             example_client (JStr ''https://storage.example/put/k1'') ''/tmp/plane2.png''),
     Slept 200],
    Inr (JStr ''https://storage.example/f/k1''))"
proof -
  let ?w = "mock_world upload_url_ok upload_ok on_post"
  let ?st = "\<lparr>isFile = True, file_size = 2048\<rparr>"
  have f: "files ?w ''/tmp/plane2.png'' = Some ?st"
    by (rule example_files_plane2)
  have t1: "transport ?w [] (upload_url_request example_runtime example_client ''/tmp/plane2.png''
              (file_size ?st))
            = Responded 200 (JObj [(''url'', JStr ''https://storage.example/put/k1''),
                                    (''key'', JStr ''k1'')])"
    by (simp add: example_transport_get upload_url_ok_def)
  have t2: "transport ?w ([] @ [Sent (upload_url_request example_runtime example_client
              ''/tmp/plane2.png'' (file_size ?st))])
              (upload_request example_runtime ?w example_client
                 (JStr ''https://storage.example/put/k1'') ''/tmp/plane2.png'')
            = Responded 200 (JObj [(''ufsUrl'', JStr ''https://storage.example/f/k1'')])"
    by (simp add: example_transport_put upload_ok_def)
  show ?thesis
    using upload_steps_ok[OF f t1 _ _ _ _ _ t2, of "JStr ''k1''" "JStr ''https://storage.example/f/k1''"]
    by (simp add: validateStatus_def)
qed

lemma example_process_after_upload:
  "process example_runtime (mock_world upload_url_ok upload_ok on_post) example_client
     ''/tmp/plane2.png'' ot d os [] =
   imageToText example_runtime (mock_world upload_url_ok upload_ok on_post) example_client
     (JStr ''https://storage.example/f/k1'')
     (Some (default_arg ''raw'' ot)) (Some (default_arg [] d)) (Some (default_arg [] os))
     [Sent (upload_url_request example_runtime example_client ''/tmp/plane2.png'' 2048),
      Sent (upload_request example_runtime (mock_world upload_url_ok upload_ok on_post)
              example_client (JStr ''https://storage.example/put/k1'') ''/tmp/plane2.png''),
      Slept 200]"
  by (rule process_after_upload[OF example_files_plane2 _ example_upload_steps]) simp

lemma example_process_trace:
  "fst (process example_runtime (mock_world upload_url_ok upload_ok on_post) example_client
          ''/tmp/plane2.png'' None None None []) =
   [Sent (upload_url_request example_runtime example_client ''/tmp/plane2.png'' 2048),
    Sent (upload_request example_runtime (mock_world upload_url_ok upload_ok on_post)
            example_client (JStr ''https://storage.example/put/k1'') ''/tmp/plane2.png''),
    Slept 200,
    Sent (extraction_request example_client
            [(''imageUrl'', JStr ''https://storage.example/f/k1''),
             (''outputType'', JStr ''raw'')])]"
proof -
  have "build_payload example_runtime (JStr ''https://storage.example/f/k1'')
          (default_arg ''raw'' (Some (default_arg ''raw'' None)))
          (default_arg [] (Some (default_arg [] None)))
          (default_arg [] (Some (default_arg [] None)))
        = Inr [(''imageUrl'', JStr ''https://storage.example/f/k1''),
               (''outputType'', JStr ''raw'')]"
    by (simp add: build_payload_def default_arg_def)
  from imageToText_trace[OF this] show ?thesis
    by (simp add: example_process_after_upload)
qed


section \<open>The claims\<close>

subsection \<open>C1: a malformed output structure\<close>

text \<open>
  C1, as the code has it. Let the path name a regular file and let the first two phases
  succeed. If the output structure is a non-empty string that \<^verbatim>\<open>JSON.parse\<close> rejects, then
  \<^verbatim>\<open>imageToText\<close> fails with the JSON error before it issues any request of its own, and
  \<^verbatim>\<open>process\<close> fails with an error that carries that JSON message, after the request for the
  upload destination, the upload and the wait, and without an extraction request.
\<close>

theorem invalid_outputStructure_fails_before_extraction:
  assumes "files w p = Some st" "isFile st"
    and "transport w tr (upload_url_request rt c p (file_size st)) = Responded s1 d1"
    and "validateStatus s1"
    and "get_prop d1 ''url'' = Inr u" "truthy u"
    and "get_prop d1 ''key'' = Inr k" "truthy k"
    and "transport w (tr @ [Sent (upload_url_request rt c p (file_size st))])
           (upload_request rt w c u p) = Responded s2 d2"
    and "validateStatus s2"
    and "get_prop d2 ''ufsUrl'' = Inr ufs" "truthy ufs"
    and "default_arg [] os \<noteq> []"
    and "JSON_parse rt (default_arg [] os) = Inl err"
  shows "imageToText rt w c img ot d os tr' =
           (tr', Inl (new_Error (''outputStructure must be valid JSON: '' @ message err)))
         \<and> (\<exists>e pre. process rt w c p ot d os tr =
                       (tr @ [Sent (upload_url_request rt c p (file_size st)),
                              Sent (upload_request rt w c u p), Slept 200], Inl e)
                     \<and> message e = pre @ ''outputStructure must be valid JSON: '' @ message err)"
proof
  show "imageToText rt w c img ot d os tr' =
          (tr', Inl (new_Error (''outputStructure must be valid JSON: '' @ message err)))"
    by (rule imageToText_invalid[OF assms(13,14)])
next
  have "process rt w c p ot d os tr =
          (tr @ [Sent (upload_url_request rt c p (file_size st)),
                 Sent (upload_request rt w c u p), Slept 200],
           Inl (new_Error (''outputStructure must be valid JSON: '' @ message err)))"
    using process_reaches_extraction[OF assms(1-12), of ot d os] assms(13,14)
    by (simp add: imageToText_invalid)
  moreover have "message (new_Error (''outputStructure must be valid JSON: '' @ message err))
                  = [] @ ''outputStructure must be valid JSON: '' @ message err"
    by simp
  ultimately show "\<exists>e pre. process rt w c p ot d os tr =
                       (tr @ [Sent (upload_url_request rt c p (file_size st)),
                              Sent (upload_request rt w c u p), Slept 200], Inl e)
                     \<and> message e = pre @ ''outputStructure must be valid JSON: '' @ message err"
    by blast
qed

text \<open>The theorem at the malformed text of the specification, in the example world.\<close>

theorem invalid_outputStructure_fails_before_extraction_witness:
  "imageToText example_runtime (mock_world upload_url_ok upload_ok extraction_ok) example_client
     (JStr ''https://storage.example/f/k1'') None None (Some ''{not valid json'') [] =
     ([], Inl (new_Error (''outputStructure must be valid JSON: '' @ message example_syntax_error)))
   \<and> (\<exists>e pre.
        process example_runtime (mock_world upload_url_ok upload_ok extraction_ok) example_client
          ''/tmp/plane2.png'' None None (Some ''{not valid json'') [] =
        ([Sent (upload_url_request example_runtime example_client ''/tmp/plane2.png'' 2048),
          Sent (upload_request example_runtime (mock_world upload_url_ok upload_ok extraction_ok)
                  example_client (JStr ''https://storage.example/put/k1'') ''/tmp/plane2.png''),
          Slept 200], Inl e)
        \<and> message e = pre @ ''outputStructure must be valid JSON: '' @ message example_syntax_error)"
proof -
  let ?w = "mock_world upload_url_ok upload_ok extraction_ok"
  let ?st = "\<lparr>isFile = True, file_size = 2048\<rparr>"
  let ?d1 = "JObj [(''url'', JStr ''https://storage.example/put/k1''), (''key'', JStr ''k1'')]"
  let ?d2 = "JObj [(''ufsUrl'', JStr ''https://storage.example/f/k1'')]"
  let ?u = "JStr ''https://storage.example/put/k1''"
  let ?ufs = "JStr ''https://storage.example/f/k1''"
  have f: "files ?w ''/tmp/plane2.png'' = Some ?st" by (rule example_files_plane2)
  have r: "isFile ?st" by simp
  have t1: "transport ?w [] (upload_url_request example_runtime example_client
              ''/tmp/plane2.png'' (file_size ?st)) = Responded 200 ?d1"
    by (simp add: example_transport_get upload_url_ok_def)
  have v: "validateStatus 200" by (simp add: validateStatus_def)
  have u: "get_prop ?d1 ''url'' = Inr ?u" "truthy ?u" by simp_all
  have k: "get_prop ?d1 ''key'' = Inr (JStr ''k1'')" "truthy (JStr ''k1'')" by simp_all
  have t2: "transport ?w ([] @ [Sent (upload_url_request example_runtime example_client
              ''/tmp/plane2.png'' (file_size ?st))])
              (upload_request example_runtime ?w example_client ?u ''/tmp/plane2.png'')
            = Responded 200 ?d2"
    by (simp add: example_transport_put upload_ok_def)
  have s: "get_prop ?d2 ''ufsUrl'' = Inr ?ufs" "truthy ?ufs" by simp_all
  have n: "default_arg [] (Some ''{not valid json'') \<noteq> []" by simp
  have p: "JSON_parse example_runtime (default_arg [] (Some ''{not valid json''))
             = Inl example_syntax_error"
    by (simp add: example_runtime_def example_JSON_parse_def)
  from invalid_outputStructure_fails_before_extraction[OF f r t1 v u k t2 v s n p,
      of ?ufs None None "[]"]
  show ?thesis by simp
qed

text \<open>
  As the specification words it, the failure comes before any network call. It does not:
  with the malformed text, the run in the example world has issued the GET and the PUT
  when it fails.
\<close>

theorem invalid_outputStructure_after_uploads_counterexample:
  "JSON_parse example_runtime ''{not valid json'' = Inl example_syntax_error
   \<and> process example_runtime (mock_world upload_url_ok upload_ok extraction_ok) example_client
       ''/tmp/plane2.png'' None None (Some ''{not valid json'') [] =
     ([Sent (upload_url_request example_runtime example_client ''/tmp/plane2.png'' 2048),
       Sent (upload_request example_runtime (mock_world upload_url_ok upload_ok extraction_ok)
               example_client (JStr ''https://storage.example/put/k1'') ''/tmp/plane2.png''),
       Slept 200],
      Inl (new_Error (''outputStructure must be valid JSON: '' @ message example_syntax_error)))"
proof -
  have p: "JSON_parse example_runtime ''{not valid json'' = Inl example_syntax_error"
    by (simp add: example_runtime_def example_JSON_parse_def)
  have "imageToText example_runtime (mock_world upload_url_ok upload_ok extraction_ok) example_client
          (JStr ''https://storage.example/f/k1'') (Some ''raw'') (Some []) (Some ''{not valid json'') tr
        = (tr, Inl (new_Error (''outputStructure must be valid JSON: '' @ message example_syntax_error)))"
    for tr
    by (rule imageToText_invalid) (simp_all add: p)
  with p show ?thesis
    by (simp add: example_process_after_upload default_arg_def)
qed

subsection \<open>C2: the run in which every phase succeeds\<close>

text \<open>
  C2. Let the path name a regular file, let the first two calls be answered with a 2xx
  status and bodies that carry \<^verbatim>\<open>url\<close>, \<^verbatim>\<open>key\<close> and \<^verbatim>\<open>ufsUrl\<close>, let the output structure be
  empty or valid JSON, and let the extraction call be answered with a 2xx status and a body
  whose \<^verbatim>\<open>success\<close> is not false. Then \<^verbatim>\<open>process\<close> returns that body unchanged. The payload
  of the extraction request has the \<^verbatim>\<open>ufsUrl\<close> of the upload as \<^verbatim>\<open>imageUrl\<close>, has
  \<^verbatim>\<open>outputType\<close>, has \<^verbatim>\<open>JSON.stringify(JSON.parse(s))\<close> as \<^verbatim>\<open>outputStructure\<close> for a
  non-empty output structure \<open>s\<close>, and has no \<^verbatim>\<open>description\<close> and no \<^verbatim>\<open>outputStructure\<close>
  key when the argument is empty.
\<close>

theorem process_returns_extraction_result:
  fixes rt w c p ot d os tr st s1 d1 u k s2 d2 ufs parsed s3 d3 sv
  defines "payload \<equiv>
             [(''imageUrl'', ufs), (''outputType'', JStr (default_arg ''raw'' ot))]
             @ (if default_arg [] d = [] then []
                else [(''description'', JStr (default_arg [] d))])
             @ (if default_arg [] os = [] then []
                else [(''outputStructure'',
                       case JSON_stringify rt parsed of None \<Rightarrow> JUndefined | Some s \<Rightarrow> JStr s)])"
  assumes "files w p = Some st" "isFile st"
    and "transport w tr (upload_url_request rt c p (file_size st)) = Responded s1 d1"
    and "validateStatus s1"
    and "get_prop d1 ''url'' = Inr u" "truthy u"
    and "get_prop d1 ''key'' = Inr k" "truthy k"
    and "transport w (tr @ [Sent (upload_url_request rt c p (file_size st))])
           (upload_request rt w c u p) = Responded s2 d2"
    and "validateStatus s2"
    and "get_prop d2 ''ufsUrl'' = Inr ufs" "truthy ufs"
    and "default_arg [] os \<noteq> [] \<longrightarrow> JSON_parse rt (default_arg [] os) = Inr parsed"
    and "transport w (tr @ [Sent (upload_url_request rt c p (file_size st)),
                            Sent (upload_request rt w c u p), Slept 200])
           (extraction_request c payload) = Responded s3 d3"
    and "validateStatus s3"
    and "get_prop d3 ''success'' = Inr sv" "sv \<noteq> JBool False"
  shows "process rt w c p ot d os tr =
           (tr @ [Sent (upload_url_request rt c p (file_size st)),
                  Sent (upload_request rt w c u p), Slept 200,
                  Sent (extraction_request c payload)],
            Inr d3)
         \<and> body (extraction_request c payload) = JsonBody (JObj payload)
         \<and> map_of payload ''imageUrl'' = Some ufs
         \<and> map_of payload ''outputType'' = Some (JStr (default_arg ''raw'' ot))
         \<and> (default_arg [] os \<noteq> [] \<longrightarrow>
              map_of payload ''outputStructure'' =
                Some (case JSON_stringify rt parsed of None \<Rightarrow> JUndefined | Some s \<Rightarrow> JStr s))
         \<and> (default_arg [] d = [] \<longrightarrow> map_of payload ''description'' = None)
         \<and> (default_arg [] os = [] \<longrightarrow> map_of payload ''outputStructure'' = None)"
proof -
  have b: "build_payload rt ufs (default_arg ''raw'' (Some (default_arg ''raw'' ot)))
             (default_arg [] (Some (default_arg [] d))) (default_arg [] (Some (default_arg [] os)))
           = Inr payload"
    using build_payload_ok[OF assms(14)] by (simp add: payload_def)
  have "process rt w c p ot d os tr =
          (tr @ [Sent (upload_url_request rt c p (file_size st)),
                 Sent (upload_request rt w c u p), Slept 200,
                 Sent (extraction_request c payload)],
           Inr d3)"
    using process_reaches_extraction[OF assms(2-13), of ot d os]
      imageToText_ok[OF b assms(15-18)]
    by simp
  moreover have "body (extraction_request c payload) = JsonBody (JObj payload)"
    by (simp add: extraction_request_def)
  moreover have "map_of payload ''imageUrl'' = Some ufs"
    and "map_of payload ''outputType'' = Some (JStr (default_arg ''raw'' ot))"
    and "default_arg [] os \<noteq> [] \<longrightarrow>
              map_of payload ''outputStructure'' =
                Some (case JSON_stringify rt parsed of None \<Rightarrow> JUndefined | Some s \<Rightarrow> JStr s)"
    and "default_arg [] d = [] \<longrightarrow> map_of payload ''description'' = None"
    and "default_arg [] os = [] \<longrightarrow> map_of payload ''outputStructure'' = None"
    by (simp_all add: payload_def)
  ultimately show ?thesis by blast
qed

text \<open>
  Two runs in the example world: one with a structure template given with extra white
  space and no description, one with every optional argument left out.
\<close>

theorem process_returns_extraction_result_witness:
  "process example_runtime (mock_world upload_url_ok upload_ok extraction_ok) example_client
     ''/tmp/plane2.png'' (Some ''structured'') None (Some ''[1, 2]'') [] =
   ([Sent (upload_url_request example_runtime example_client ''/tmp/plane2.png'' 2048),
     Sent (upload_request example_runtime (mock_world upload_url_ok upload_ok extraction_ok)
             example_client (JStr ''https://storage.example/put/k1'') ''/tmp/plane2.png''),
     Slept 200,
     Sent (extraction_request example_client
             [(''imageUrl'', JStr ''https://storage.example/f/k1''),
              (''outputType'', JStr ''structured''),
              (''outputStructure'', JStr ''[1,2]'')])],
    Inr (JObj [(''success'', JBool True), (''text'', JStr ''LAX'')]))
   \<and> process example_runtime (mock_world upload_url_ok upload_ok extraction_ok) example_client
       ''/tmp/plane2.png'' None None None [] =
     ([Sent (upload_url_request example_runtime example_client ''/tmp/plane2.png'' 2048),
       Sent (upload_request example_runtime (mock_world upload_url_ok upload_ok extraction_ok)
               example_client (JStr ''https://storage.example/put/k1'') ''/tmp/plane2.png''),
       Slept 200,
       Sent (extraction_request example_client
               [(''imageUrl'', JStr ''https://storage.example/f/k1''),
                (''outputType'', JStr ''raw'')])],
      Inr (JObj [(''success'', JBool True), (''text'', JStr ''LAX'')]))"
proof -
  let ?w = "mock_world upload_url_ok upload_ok extraction_ok"
  let ?st = "\<lparr>isFile = True, file_size = 2048\<rparr>"
  let ?d1 = "JObj [(''url'', JStr ''https://storage.example/put/k1''), (''key'', JStr ''k1'')]"
  let ?d2 = "JObj [(''ufsUrl'', JStr ''https://storage.example/f/k1'')]"
  let ?d3 = "JObj [(''success'', JBool True), (''text'', JStr ''LAX'')]"
  let ?u = "JStr ''https://storage.example/put/k1''"
  let ?ufs = "JStr ''https://storage.example/f/k1''"
  let ?parsed = "JArr [JNum (Finite 1), JNum (Finite 2)]"
  have f: "files ?w ''/tmp/plane2.png'' = Some ?st" by (rule example_files_plane2)
  have r: "isFile ?st" by simp
  have t1: "transport ?w [] (upload_url_request example_runtime example_client
              ''/tmp/plane2.png'' (file_size ?st)) = Responded 200 ?d1"
    by (simp add: example_transport_get upload_url_ok_def)
  have v: "validateStatus 200" by (simp add: validateStatus_def)
  have u: "get_prop ?d1 ''url'' = Inr ?u" "truthy ?u" by simp_all
  have k: "get_prop ?d1 ''key'' = Inr (JStr ''k1'')" "truthy (JStr ''k1'')" by simp_all
  have t2: "transport ?w ([] @ [Sent (upload_url_request example_runtime example_client
              ''/tmp/plane2.png'' (file_size ?st))])
              (upload_request example_runtime ?w example_client ?u ''/tmp/plane2.png'')
            = Responded 200 ?d2"
    by (simp add: example_transport_put upload_ok_def)
  have s: "get_prop ?d2 ''ufsUrl'' = Inr ?ufs" "truthy ?ufs" by simp_all
  have j: "default_arg [] (Some ''[1, 2]'') \<noteq> [] \<longrightarrow>
             JSON_parse example_runtime (default_arg [] (Some ''[1, 2]'')) = Inr ?parsed"
    by (simp add: example_runtime_def example_JSON_parse_def)
  have j0: "default_arg [] None \<noteq> [] \<longrightarrow>
             JSON_parse example_runtime (default_arg [] None) = Inr ?parsed"
    by (simp add: default_arg_def)
  have t3: "transport ?w tr (extraction_request example_client payload) = Responded 200 ?d3"
    for tr payload
    by (simp add: example_transport_post extraction_ok_def)
  have e: "get_prop ?d3 ''success'' = Inr (JBool True)" "JBool True \<noteq> JBool False" by simp_all
  have y: "JSON_stringify example_runtime ?parsed = Some ''[1,2]''"
    by (simp add: example_runtime_def example_JSON_stringify_def)
  from process_returns_extraction_result[OF f r t1 v u k t2 v s j t3 v e,
      of "Some ''structured''" None] y
  have 1: "process example_runtime ?w example_client ''/tmp/plane2.png''
             (Some ''structured'') None (Some ''[1, 2]'') [] =
           ([Sent (upload_url_request example_runtime example_client ''/tmp/plane2.png'' 2048),
             Sent (upload_request example_runtime ?w example_client ?u ''/tmp/plane2.png''),
             Slept 200,
             Sent (extraction_request example_client
                     [(''imageUrl'', ?ufs), (''outputType'', JStr ''structured''),
                      (''outputStructure'', JStr ''[1,2]'')])],
            Inr ?d3)"
    by (simp add: default_arg_def)
  from process_returns_extraction_result[OF f r t1 v u k t2 v s j0 t3 v e, of None None]
  have 2: "process example_runtime ?w example_client ''/tmp/plane2.png'' None None None [] =
           ([Sent (upload_url_request example_runtime example_client ''/tmp/plane2.png'' 2048),
             Sent (upload_request example_runtime ?w example_client ?u ''/tmp/plane2.png''),
             Slept 200,
             Sent (extraction_request example_client
                     [(''imageUrl'', ?ufs), (''outputType'', JStr ''raw'')])],
            Inr ?d3)"
    by (simp add: default_arg_def)
  from 1 2 show ?thesis by (rule conjI)
qed

subsection \<open>C3: the layers of an error\<close>

text \<open>
  C3 does not hold of the third phase. In the example world a network failure of the first
  call surfaces with both layers, the one of the step inside the one of \<^verbatim>\<open>process\<close>; the same
  failure of the extraction call surfaces with the layer of the step only, because
  \<^verbatim>\<open>process\<close> returns the promise of \<^verbatim>\<open>imageToText\<close> without awaiting it inside its \<^verbatim>\<open>try\<close>.
\<close>

theorem process_leaves_extraction_error_unwrapped:
  "process example_runtime (mock_world (Failed network_error) upload_ok extraction_ok)
     example_client ''/tmp/plane2.png'' None None None [] =
   ([Sent (upload_url_request example_runtime example_client ''/tmp/plane2.png'' 2048)],
    Inl (new_Error ''Image processing failed: Failed to get upload URL: Network Error''))
   \<and> process example_runtime (mock_world upload_url_ok upload_ok (Failed network_error))
       example_client ''/tmp/plane2.png'' None None None [] =
     ([Sent (upload_url_request example_runtime example_client ''/tmp/plane2.png'' 2048),
       Sent (upload_request example_runtime
               (mock_world upload_url_ok upload_ok (Failed network_error)) example_client
               (JStr ''https://storage.example/put/k1'') ''/tmp/plane2.png''),
       Slept 200,
       Sent (extraction_request example_client
               [(''imageUrl'', JStr ''https://storage.example/f/k1''),
                (''outputType'', JStr ''raw'')])],
      Inl (new_Error ''Failed to process image: Network Error''))"
proof
  let ?w = "mock_world (Failed network_error) upload_ok extraction_ok"
  let ?st = "\<lparr>isFile = True, file_size = 2048\<rparr>"
  have f: "files ?w ''/tmp/plane2.png'' = Some ?st" by (rule example_files_plane2)
  have t1: "transport ?w [] (upload_url_request example_runtime example_client
              ''/tmp/plane2.png'' (file_size ?st)) = Failed network_error"
    by (simp add: example_transport_get)
  have "upload_steps example_runtime ?w example_client ''/tmp/plane2.png'' [] =
          ([Sent (upload_url_request example_runtime example_client ''/tmp/plane2.png'' 2048)],
           Inl (new_Error ''Failed to get upload URL: Network Error''))"
    using getUploadUrl_failed[OF f t1]
    by (simp add: upload_steps_def io_defs message_or_error_def network_error_def)
  from process_upload_failed[OF f _ this, of None None None]
  show "process example_runtime ?w example_client ''/tmp/plane2.png'' None None None [] =
          ([Sent (upload_url_request example_runtime example_client ''/tmp/plane2.png'' 2048)],
           Inl (new_Error ''Image processing failed: Failed to get upload URL: Network Error''))"
    by simp
next
  show "process example_runtime (mock_world upload_url_ok upload_ok (Failed network_error))
       example_client ''/tmp/plane2.png'' None None None [] =
     ([Sent (upload_url_request example_runtime example_client ''/tmp/plane2.png'' 2048),
       Sent (upload_request example_runtime
               (mock_world upload_url_ok upload_ok (Failed network_error)) example_client
               (JStr ''https://storage.example/put/k1'') ''/tmp/plane2.png''),
       Slept 200,
       Sent (extraction_request example_client
               [(''imageUrl'', JStr ''https://storage.example/f/k1''),
                (''outputType'', JStr ''raw'')])],
      Inl (new_Error ''Failed to process image: Network Error''))"
    by (simp add: example_process_after_upload imageToText_def io_defs build_payload_def
        axios_request_def example_transport_post extraction_handler_def network_error_def
        message_or_error_def default_arg_def)
qed

subsection \<open>C4: a path that is not a regular file\<close>

text \<open>
  C4. If the path names nothing, or names something that is not a regular file, then
  \<^verbatim>\<open>process\<close> fails with the file-not-found error and the log of requests stays as it was.
\<close>

theorem process_rejects_missing_file:
  assumes "files w p = None \<or> (\<exists>st. files w p = Some st \<and> \<not> isFile st)"
  shows "process rt w c p ot d os tr =
           (tr, Inl (new_Error (''File not found or is not a file: '' @ p)))"
  using assms
  by (auto simp: process_def io_defs existsSync_def statSync_def)

text \<open>A missing file and a directory, in the example world.\<close>

theorem process_rejects_missing_file_witness:
  "process example_runtime (mock_world upload_url_ok upload_ok extraction_ok) example_client
     ''/tmp/missing.png'' None None None [] =
     ([], Inl (new_Error ''File not found or is not a file: /tmp/missing.png''))
   \<and> process example_runtime (mock_world upload_url_ok upload_ok extraction_ok) example_client
       ''/tmp'' None None None [] =
     ([], Inl (new_Error ''File not found or is not a file: /tmp''))"
proof -
  let ?w = "mock_world upload_url_ok upload_ok extraction_ok"
  have "files ?w ''/tmp/missing.png'' = None"
    by (simp add: mock_world_def example_files_def)
  then have a: "files ?w ''/tmp/missing.png'' = None
      \<or> (\<exists>st. files ?w ''/tmp/missing.png'' = Some st \<and> \<not> isFile st)"
    by (rule disjI1)
  have "files ?w ''/tmp'' = Some \<lparr>isFile = False, file_size = 4096\<rparr>"
    by (simp add: mock_world_def example_files_def)
  then have b: "files ?w ''/tmp'' = None \<or> (\<exists>st. files ?w ''/tmp'' = Some st \<and> \<not> isFile st)"
    by simp
  from process_rejects_missing_file[OF a, of example_runtime example_client None None None "[]"]
    process_rejects_missing_file[OF b, of example_runtime example_client None None None "[]"]
  show ?thesis by simp
qed

subsection \<open>C5: an upload destination without url or key\<close>



subsection \<open>C6: an upload answer without ufsUrl\<close>



subsection \<open>C7: a body that says success is false\<close>

text \<open>
  C7. Let the extraction call be answered with a body whose \<^verbatim>\<open>success\<close> is the boolean
  false. Then \<^verbatim>\<open>imageToText\<close> does not return the body: it fails, and the message of the
  error holds the diagnostic payload of the service, printed by \<^verbatim>\<open>JSON.stringify\<close>: the
  \<^verbatim>\<open>data\<close> of the body, else its \<^verbatim>\<open>text\<close>, else the body, when the status is 2xx, and the
  body with the status otherwise. When the path names a regular file and the first two
  phases have handed over the stored URL, \<^verbatim>\<open>process\<close> fails likewise, with a message that
  ends with that report.
\<close>

theorem extraction_success_false_is_failure:
  assumes "files w p = Some st" "isFile st"
    and "upload_steps rt w c p tr0 = (tr, Inr ufs)"
    and "build_payload rt ufs (default_arg ''raw'' ot) (default_arg [] d) (default_arg [] os)
           = Inr payload"
    and "transport w tr (extraction_request c payload) = Responded s3 d3"
    and "get_prop d3 ''success'' = Inr (JBool False)"
    and "get_prop d3 ''data'' = Inr dd"
    and "get_prop d3 ''text'' = Inr dt"
  shows "imageToText rt w c ufs ot d os tr =
           (tr @ [Sent (extraction_request c payload)],
            Inl (new_Error
                  (if validateStatus s3
                   then ''Failed to process image: Processing failed: ''
                        @ template_stringify rt (js_or (js_or dd dt) d3)
                   else ''API call failed: '' @ show_nat s3 @ '' - '' @ template_stringify rt d3)))
         \<and> (\<exists>e pre. process rt w c p ot d os tr0 =
                       (tr @ [Sent (extraction_request c payload)], Inl e)
                     \<and> message e =
                         pre @ (if validateStatus s3
                                then ''Processing failed: ''
                                     @ template_stringify rt (js_or (js_or dd dt) d3)
                                else ''API call failed: '' @ show_nat s3 @ '' - ''
                                     @ template_stringify rt d3))"
proof
  show "imageToText rt w c ufs ot d os tr =
           (tr @ [Sent (extraction_request c payload)],
            Inl (new_Error
                  (if validateStatus s3
                   then ''Failed to process image: Processing failed: ''
                        @ template_stringify rt (js_or (js_or dd dt) d3)
                   else ''API call failed: '' @ show_nat s3 @ '' - '' @ template_stringify rt d3)))"
    by (rule imageToText_success_false[OF assms(4-8)])
next
  let ?diag = "if validateStatus s3
               then ''Processing failed: '' @ template_stringify rt (js_or (js_or dd dt) d3)
               else ''API call failed: '' @ show_nat s3 @ '' - '' @ template_stringify rt d3"
  let ?e = "new_Error
              (if validateStatus s3
               then ''Failed to process image: Processing failed: ''
                    @ template_stringify rt (js_or (js_or dd dt) d3)
               else ''API call failed: '' @ show_nat s3 @ '' - '' @ template_stringify rt d3)"
  have "build_payload rt ufs (default_arg ''raw'' (Some (default_arg ''raw'' ot)))
          (default_arg [] (Some (default_arg [] d))) (default_arg [] (Some (default_arg [] os)))
        = Inr payload"
    using assms(4) by simp
  from imageToText_success_false[OF this assms(5-8)] process_after_upload[OF assms(1-3), of ot d os]
  have "process rt w c p ot d os tr0 = (tr @ [Sent (extraction_request c payload)], Inl ?e)"
    by simp
  moreover have "message ?e = (if validateStatus s3 then ''Failed to process image: '' else []) @ ?diag"
    by simp
  ultimately show "\<exists>e pre. process rt w c p ot d os tr0 =
                       (tr @ [Sent (extraction_request c payload)], Inl e)
                     \<and> message e = pre @ ?diag"
    by blast
qed

text \<open>The service answers 200 with success false and a text that says why.\<close>

theorem extraction_success_false_is_failure_witness:
  "imageToText example_runtime (mock_world upload_url_ok upload_ok extraction_refused)
     example_client (JStr ''https://storage.example/f/k1'') None None None
     [Sent (upload_url_request example_runtime example_client ''/tmp/plane2.png'' 2048),
      Sent (upload_request example_runtime (mock_world upload_url_ok upload_ok extraction_refused)
              example_client (JStr ''https://storage.example/put/k1'') ''/tmp/plane2.png''),
      Slept 200] =
   ([Sent (upload_url_request example_runtime example_client ''/tmp/plane2.png'' 2048),
     Sent (upload_request example_runtime (mock_world upload_url_ok upload_ok extraction_refused)
             example_client (JStr ''https://storage.example/put/k1'') ''/tmp/plane2.png''),
     Slept 200,
     Sent (extraction_request example_client
             [(''imageUrl'', JStr ''https://storage.example/f/k1''),
              (''outputType'', JStr ''raw'')])],
    Inl (new_Error (''Failed to process image: Processing failed: ''
                    @ [CHR 0x22] @ ''no credits'' @ [CHR 0x22])))
   \<and> (\<exists>e pre.
        process example_runtime (mock_world upload_url_ok upload_ok extraction_refused)
          example_client ''/tmp/plane2.png'' None None None [] =
        ([Sent (upload_url_request example_runtime example_client ''/tmp/plane2.png'' 2048),
          Sent (upload_request example_runtime
                  (mock_world upload_url_ok upload_ok extraction_refused)
                  example_client (JStr ''https://storage.example/put/k1'') ''/tmp/plane2.png''),
          Slept 200,
          Sent (extraction_request example_client
                  [(''imageUrl'', JStr ''https://storage.example/f/k1''),
                   (''outputType'', JStr ''raw'')])], Inl e)
        \<and> message e = pre @ ''Processing failed: '' @ [CHR 0x22] @ ''no credits'' @ [CHR 0x22])"
proof -
  let ?w = "mock_world upload_url_ok upload_ok extraction_refused"
  let ?st = "\<lparr>isFile = True, file_size = 2048\<rparr>"
  let ?d3 = "JObj [(''success'', JBool False), (''text'', JStr ''no credits'')]"
  let ?ufs = "JStr ''https://storage.example/f/k1''"
  let ?payload = "[(''imageUrl'', ?ufs), (''outputType'', JStr ''raw'')]"
  have f: "files ?w ''/tmp/plane2.png'' = Some ?st" by (rule example_files_plane2)
  have r: "isFile ?st" by simp
  have b: "build_payload example_runtime ?ufs (default_arg ''raw'' None) (default_arg [] None)
             (default_arg [] None) = Inr ?payload"
    by (simp add: build_payload_def default_arg_def)
  have t3: "transport ?w tr (extraction_request example_client ?payload) = Responded 200 ?d3"
    for tr
    by (simp add: example_transport_post extraction_refused_def)
  have v: "validateStatus 200" by (simp add: validateStatus_def)
  have e: "get_prop ?d3 ''success'' = Inr (JBool False)" by simp
  have dd: "get_prop ?d3 ''data'' = Inr JUndefined" by simp
  have dt: "get_prop ?d3 ''text'' = Inr (JStr ''no credits'')" by simp
  have y: "template_stringify example_runtime (js_or (js_or JUndefined (JStr ''no credits'')) ?d3)
           = [CHR 0x22] @ ''no credits'' @ [CHR 0x22]"
    by (simp add: template_stringify_def js_or_def example_runtime_def example_JSON_stringify_def)
  from extraction_success_false_is_failure[OF f r example_upload_steps b t3 e dd dt] v y
  show ?thesis by simp
qed

subsection \<open>C8: the order of the phases\<close>

text \<open>
  C8. Whatever the world answers, what a run of \<^verbatim>\<open>process\<close> adds to the log is a beginning
  of the sequence GET, PUT, wait of 200 ms, POST: each at most once and in this order, so
  nothing is retried or polled. When the path names a regular file, the first two phases
  succeed and the output structure is empty or valid, the run adds all four, the PUT goes
  to the \<^verbatim>\<open>url\<close> that the first answer gave, and the \<^verbatim>\<open>imageUrl\<close> of the extraction payload
  is the \<^verbatim>\<open>ufsUrl\<close> that the upload gave. The wait is the timer that the code sets; how long
  it lasts on a clock is outside the model.
\<close>

theorem process_phases_in_sequence:
  "(\<exists>evs. fst (process rt w c p ot d os tr) = tr @ evs \<and> phase_order evs)
   \<and> (files w p = Some st \<and> isFile st
      \<and> transport w tr (upload_url_request rt c p (file_size st)) = Responded s1 d1
      \<and> validateStatus s1
      \<and> get_prop d1 ''url'' = Inr u \<and> truthy u
      \<and> get_prop d1 ''key'' = Inr k \<and> truthy k
      \<and> transport w (tr @ [Sent (upload_url_request rt c p (file_size st))])
           (upload_request rt w c u p) = Responded s2 d2
      \<and> validateStatus s2
      \<and> get_prop d2 ''ufsUrl'' = Inr ufs \<and> truthy ufs
      \<and> build_payload rt ufs (default_arg ''raw'' ot) (default_arg [] d) (default_arg [] os)
           = Inr payload
      \<longrightarrow> fst (process rt w c p ot d os tr) =
            tr @ [Sent (upload_url_request rt c p (file_size st)),
                  Sent (upload_request rt w c u p),
                  Slept 200,
                  Sent (extraction_request c payload)]
          \<and> url (upload_request rt w c u p) = u
          \<and> map_of payload ''imageUrl'' = Some ufs)"
proof (intro conjI impI)
  from process_trace_cases[of rt w c p ot d os tr]
  obtain evs where e: "fst (process rt w c p ot d os tr) = tr @ evs"
    and c: "evs = []
      \<or> (\<exists>n. evs = [Sent (upload_url_request rt c p n)])
      \<or> (\<exists>n u. evs = [Sent (upload_url_request rt c p n), Sent (upload_request rt w c u p)])
      \<or> (\<exists>n u. evs = [Sent (upload_url_request rt c p n), Sent (upload_request rt w c u p),
                        Slept 200])
      \<or> (\<exists>n u payload. evs = [Sent (upload_url_request rt c p n),
                                Sent (upload_request rt w c u p), Slept 200,
                                Sent (extraction_request c payload)])"
    by blast
  from c have "phase_order evs"
    by (auto simp: request_defs Let_def)
  with e show "\<exists>evs. fst (process rt w c p ot d os tr) = tr @ evs \<and> phase_order evs"
    by blast
next
  assume a: "files w p = Some st \<and> isFile st
      \<and> transport w tr (upload_url_request rt c p (file_size st)) = Responded s1 d1
      \<and> validateStatus s1
      \<and> get_prop d1 ''url'' = Inr u \<and> truthy u
      \<and> get_prop d1 ''key'' = Inr k \<and> truthy k
      \<and> transport w (tr @ [Sent (upload_url_request rt c p (file_size st))])
           (upload_request rt w c u p) = Responded s2 d2
      \<and> validateStatus s2
      \<and> get_prop d2 ''ufsUrl'' = Inr ufs \<and> truthy ufs
      \<and> build_payload rt ufs (default_arg ''raw'' ot) (default_arg [] d) (default_arg [] os)
           = Inr payload"
  then have r: "process rt w c p ot d os tr =
           imageToText rt w c ufs (Some (default_arg ''raw'' ot)) (Some (default_arg [] d))
             (Some (default_arg [] os))
             (tr @ [Sent (upload_url_request rt c p (file_size st)),
                    Sent (upload_request rt w c u p), Slept 200])"
    using process_reaches_extraction[of w p st tr rt c s1 d1 u k s2 d2 ufs ot d os] by blast
  from a have "build_payload rt ufs (default_arg ''raw'' (Some (default_arg ''raw'' ot)))
          (default_arg [] (Some (default_arg [] d))) (default_arg [] (Some (default_arg [] os)))
        = Inr payload"
    by simp
  from imageToText_trace[OF this] r
  show "fst (process rt w c p ot d os tr) =
            tr @ [Sent (upload_url_request rt c p (file_size st)),
                  Sent (upload_request rt w c u p),
                  Slept 200,
                  Sent (extraction_request c payload)]"
    by simp
  show "url (upload_request rt w c u p) = u"
    by (simp add: upload_request_def Let_def)
  from a show "map_of payload ''imageUrl'' = Some ufs"
    by (auto simp: build_payload_def Let_def split: if_splits sum.splits)
qed

text \<open>The full run in the example world, and its order.\<close>

theorem process_phases_in_sequence_witness:
  "fst (process example_runtime (mock_world upload_url_ok upload_ok extraction_ok) example_client
          ''/tmp/plane2.png'' None None None []) =
     [Sent (upload_url_request example_runtime example_client ''/tmp/plane2.png'' 2048),
      Sent (upload_request example_runtime (mock_world upload_url_ok upload_ok extraction_ok)
              example_client (JStr ''https://storage.example/put/k1'') ''/tmp/plane2.png''),
      Slept 200,
      Sent (extraction_request example_client
              [(''imageUrl'', JStr ''https://storage.example/f/k1''),
               (''outputType'', JStr ''raw'')])]
   \<and> phase_order
       (fst (process example_runtime (mock_world upload_url_ok upload_ok extraction_ok)
               example_client ''/tmp/plane2.png'' None None None []))"
proof -
  let ?w = "mock_world upload_url_ok upload_ok extraction_ok"
  let ?st = "\<lparr>isFile = True, file_size = 2048\<rparr>"
  let ?d1 = "JObj [(''url'', JStr ''https://storage.example/put/k1''), (''key'', JStr ''k1'')]"
  let ?d2 = "JObj [(''ufsUrl'', JStr ''https://storage.example/f/k1'')]"
  let ?u = "JStr ''https://storage.example/put/k1''"
  let ?ufs = "JStr ''https://storage.example/f/k1''"
  let ?payload = "[(''imageUrl'', ?ufs), (''outputType'', JStr ''raw'')]"
  note t = process_phases_in_sequence[of example_runtime ?w example_client "''/tmp/plane2.png''"
      None None None "[]" ?st 200 ?d1 ?u "JStr ''k1''" 200 ?d2 ?ufs ?payload]
  have f: "files ?w ''/tmp/plane2.png'' = Some ?st" by (rule example_files_plane2)
  have t1: "transport ?w [] (upload_url_request example_runtime example_client
              ''/tmp/plane2.png'' (file_size ?st)) = Responded 200 ?d1"
    by (simp add: example_transport_get upload_url_ok_def)
  have v: "validateStatus 200" by (simp add: validateStatus_def)
  have t2: "transport ?w ([] @ [Sent (upload_url_request example_runtime example_client
              ''/tmp/plane2.png'' (file_size ?st))])
              (upload_request example_runtime ?w example_client ?u ''/tmp/plane2.png'')
            = Responded 200 ?d2"
    by (simp add: example_transport_put upload_ok_def)
  have b: "build_payload example_runtime ?ufs (default_arg ''raw'' None) (default_arg [] None)
             (default_arg [] None) = Inr ?payload"
    by (simp add: build_payload_def default_arg_def)
  from t f t1 v t2 b
  have 1: "fst (process example_runtime ?w example_client ''/tmp/plane2.png'' None None None []) =
     [] @ [Sent (upload_url_request example_runtime example_client ''/tmp/plane2.png''
              (file_size ?st)),
      Sent (upload_request example_runtime ?w example_client ?u ''/tmp/plane2.png''),
      Slept 200,
      Sent (extraction_request example_client ?payload)]"
    by simp
  from t obtain evs where
    "fst (process example_runtime ?w example_client ''/tmp/plane2.png'' None None None []) = [] @ evs"
    and "phase_order evs"
    by blast
  then have 2: "phase_order
       (fst (process example_runtime ?w example_client ''/tmp/plane2.png'' None None None []))"
    by simp
  from 1 2 show ?thesis by simp
qed

subsection \<open>C9: the credential\<close>

text \<open>
  C9. The constructor fails, and touches nothing of the log, on every credential that is
  not a non-empty string: the empty string, undefined, a value of another type. On a
  non-empty string it succeeds with a client whose header is \<^verbatim>\<open>Authorization: Bearer\<close>
  followed by the credential. The client is a value that no operation changes, and every
  request that a run of \<^verbatim>\<open>process\<close> on this client issues carries that header.
\<close>

theorem constructor_requires_string_key:
  "(\<not> (\<exists>s. apiKey = JStr s \<and> s \<noteq> []) \<longrightarrow>
      constructor apiKey tr = (tr, Inl (new_Error ''API Key is required and must be a string.'')))
   \<and> (s \<noteq> [] \<longrightarrow>
      constructor (JStr s) tr =
        (tr, Inr \<lparr>baseUrl = ''https://img2txt.io/api/'',
                  headers = [(''Authorization'', ''Bearer '' @ s)]\<rparr>))
   \<and> (s \<noteq> [] \<and> constructor (JStr s) tr = (tr', Inr c)
      \<and> Sent rq \<in> set (fst (process rt w c p ot d os [])) \<longrightarrow>
      map_of (hdrs rq) ''Authorization'' = Some (''Bearer '' @ s))"
proof (intro conjI impI)
  assume "\<not> (\<exists>s. apiKey = JStr s \<and> s \<noteq> [])"
  then show "constructor apiKey tr =
               (tr, Inl (new_Error ''API Key is required and must be a string.''))"
    by (cases apiKey) (auto simp: constructor_def throw_io_def)
next
  assume "s \<noteq> []"
  then show "constructor (JStr s) tr =
        (tr, Inr \<lparr>baseUrl = ''https://img2txt.io/api/'',
                  headers = [(''Authorization'', ''Bearer '' @ s)]\<rparr>)"
    by (simp add: constructor_def return_io_def)
next
  assume a: "s \<noteq> [] \<and> constructor (JStr s) tr = (tr', Inr c)
      \<and> Sent rq \<in> set (fst (process rt w c p ot d os []))"
  then have h: "headers c = [(''Authorization'', ''Bearer '' @ s)]"
    by (auto simp: constructor_def return_io_def)
  from process_trace_cases[of rt w c p ot d os "[]"] a
  have "(\<exists>n. rq = upload_url_request rt c p n)
        \<or> (\<exists>u. rq = upload_request rt w c u p)
        \<or> (\<exists>payload. rq = extraction_request c payload)"
    by auto
  with h show "map_of (hdrs rq) ''Authorization'' = Some (''Bearer '' @ s)"
    by (auto simp: request_defs Let_def spread_def form_getHeaders_def)
qed

text \<open>
  Three credentials that are refused and one that is accepted; the upload request of the
  example run carries the header of the accepted one.
\<close>

theorem constructor_requires_string_key_witness:
  "constructor (JStr []) [] = ([], Inl (new_Error ''API Key is required and must be a string.''))
   \<and> constructor JUndefined [] = ([], Inl (new_Error ''API Key is required and must be a string.''))
   \<and> constructor (JNum (Finite 42)) [] =
       ([], Inl (new_Error ''API Key is required and must be a string.''))
   \<and> constructor (JStr ''API_KEY_HERE'') [] = ([], Inr example_client)
   \<and> map_of (hdrs (upload_request example_runtime
                     (mock_world upload_url_ok upload_ok extraction_ok) example_client
                     (JStr ''https://storage.example/put/k1'') ''/tmp/plane2.png''))
        ''Authorization'' = Some ''Bearer API_KEY_HERE''"
proof -
  let ?w = "mock_world upload_url_ok upload_ok extraction_ok"
  let ?rq = "upload_request example_runtime ?w example_client
               (JStr ''https://storage.example/put/k1'') ''/tmp/plane2.png''"
  have 1: "constructor (JStr []) [] =
             ([], Inl (new_Error ''API Key is required and must be a string.''))"
    using constructor_requires_string_key[of "JStr []" "[]"] by simp
  have 2: "constructor JUndefined [] =
             ([], Inl (new_Error ''API Key is required and must be a string.''))"
    using constructor_requires_string_key[of JUndefined "[]"] by simp
  have 3: "constructor (JNum (Finite 42)) [] =
             ([], Inl (new_Error ''API Key is required and must be a string.''))"
    using constructor_requires_string_key[of "JNum (Finite 42)" "[]"] by simp
  have 4: "constructor (JStr ''API_KEY_HERE'') [] = ([], Inr example_client)"
    using constructor_requires_string_key[of _ "[]" "''API_KEY_HERE''"]
    by (simp add: example_client_def)
  have m: "Sent ?rq \<in> set (fst (process example_runtime ?w example_client ''/tmp/plane2.png''
                                   None None None []))"
    by (simp add: example_process_trace)
  have 5: "map_of (hdrs ?rq) ''Authorization'' = Some ''Bearer API_KEY_HERE''"
    using constructor_requires_string_key[of _ "[]" "''API_KEY_HERE''" "[]" example_client ?rq
        example_runtime ?w "''/tmp/plane2.png''" None None None] 4 m
    by simp
  from 1 2 3 4 5 show ?thesis by blast
qed

subsection \<open>C10: only the boolean false is a failure\<close>

text \<open>
  C10, as the code has it. Let the path name a regular file and let the first two phases
  hand over the stored URL. If the extraction call is answered with a 2xx status and a body
  that is neither null nor undefined, and the \<^verbatim>\<open>success\<close> of that body reads as anything but
  the boolean false (the field is missing, or it is 0, null, the string "false", ...),
  then \<^verbatim>\<open>process\<close> returns the body as its result.
\<close>

theorem process_returns_unless_success_is_false:
  assumes "files w p = Some st" "isFile st"
    and "upload_steps rt w c p tr0 = (tr, Inr ufs)"
    and "build_payload rt ufs (default_arg ''raw'' ot) (default_arg [] d) (default_arg [] os)
           = Inr payload"
    and "transport w tr (extraction_request c payload) = Responded s3 d3"
    and "validateStatus s3"
    and "d3 \<noteq> JNull" "d3 \<noteq> JUndefined"
    and "get_prop d3 ''success'' \<noteq> Inr (JBool False)"
  shows "process rt w c p ot d os tr0 = (tr @ [Sent (extraction_request c payload)], Inr d3)"
proof -
  from assms(7,8) obtain sv where sv: "get_prop d3 ''success'' = Inr sv"
    by (cases d3) simp_all
  with assms(9) have ne: "sv \<noteq> JBool False"
    by simp
  have "build_payload rt ufs (default_arg ''raw'' (Some (default_arg ''raw'' ot)))
          (default_arg [] (Some (default_arg [] d))) (default_arg [] (Some (default_arg [] os)))
        = Inr payload"
    using assms(4) by simp
  from imageToText_ok[OF this assms(5,6) sv ne] process_after_upload[OF assms(1-3), of ot d os]
  show ?thesis by simp
qed

text \<open>The service answers 200 with the string "false" in the success field.\<close>

theorem process_returns_unless_success_is_false_witness:
  "process example_runtime (mock_world upload_url_ok upload_ok extraction_string_false)
     example_client ''/tmp/plane2.png'' None None None [] =
   ([Sent (upload_url_request example_runtime example_client ''/tmp/plane2.png'' 2048),
     Sent (upload_request example_runtime
             (mock_world upload_url_ok upload_ok extraction_string_false)
             example_client (JStr ''https://storage.example/put/k1'') ''/tmp/plane2.png''),
     Slept 200,
     Sent (extraction_request example_client
             [(''imageUrl'', JStr ''https://storage.example/f/k1''),
              (''outputType'', JStr ''raw'')])],
    Inr (JObj [(''success'', JStr ''false''), (''text'', JStr ''LAX'')]))"
proof -
  let ?w = "mock_world upload_url_ok upload_ok extraction_string_false"
  let ?st = "\<lparr>isFile = True, file_size = 2048\<rparr>"
  let ?d3 = "JObj [(''success'', JStr ''false''), (''text'', JStr ''LAX'')]"
  let ?ufs = "JStr ''https://storage.example/f/k1''"
  let ?payload = "[(''imageUrl'', ?ufs), (''outputType'', JStr ''raw'')]"
  have f: "files ?w ''/tmp/plane2.png'' = Some ?st" by (rule example_files_plane2)
  have r: "isFile ?st" by simp
  have b: "build_payload example_runtime ?ufs (default_arg ''raw'' None) (default_arg [] None)
             (default_arg [] None) = Inr ?payload"
    by (simp add: build_payload_def default_arg_def)
  have t3: "transport ?w tr (extraction_request example_client ?payload) = Responded 200 ?d3"
    for tr
    by (simp add: example_transport_post extraction_string_false_def)
  have v: "validateStatus 200" by (simp add: validateStatus_def)
  have n: "?d3 \<noteq> JNull" "?d3 \<noteq> JUndefined" by simp_all
  have e: "get_prop ?d3 ''success'' \<noteq> Inr (JBool False)" by simp
  from process_returns_unless_success_is_false[OF f r example_upload_steps b t3 v n e]
  show ?thesis by simp
qed

text \<open>
  As the claim words it, every 2xx body that omits the success field is returned. The body
  null omits it, and is not returned: reading \<^verbatim>\<open>data.success\<close> of null throws, and the run in
  the example world fails with the error of that read.
\<close>

theorem process_raises_on_null_body_counterexample:
  "transport (mock_world upload_url_ok upload_ok extraction_null)
     [Sent (upload_url_request example_runtime example_client ''/tmp/plane2.png'' 2048),
      Sent (upload_request example_runtime (mock_world upload_url_ok upload_ok extraction_null)
              example_client (JStr ''https://storage.example/put/k1'') ''/tmp/plane2.png''),
      Slept 200]
     (extraction_request example_client
        [(''imageUrl'', JStr ''https://storage.example/f/k1''), (''outputType'', JStr ''raw'')])
     = Responded 200 JNull
   \<and> validateStatus 200
   \<and> process example_runtime (mock_world upload_url_ok upload_ok extraction_null)
       example_client ''/tmp/plane2.png'' None None None [] =
     ([Sent (upload_url_request example_runtime example_client ''/tmp/plane2.png'' 2048),
       Sent (upload_request example_runtime (mock_world upload_url_ok upload_ok extraction_null)
               example_client (JStr ''https://storage.example/put/k1'') ''/tmp/plane2.png''),
       Slept 200,
       Sent (extraction_request example_client
               [(''imageUrl'', JStr ''https://storage.example/f/k1''),
                (''outputType'', JStr ''raw'')])],
      Inl (new_Error (''Failed to process image: ''
                      @ message (new_TypeError ''null'' ''success''))))"
proof (intro conjI)
  show "transport (mock_world upload_url_ok upload_ok extraction_null)
     [Sent (upload_url_request example_runtime example_client ''/tmp/plane2.png'' 2048),
      Sent (upload_request example_runtime (mock_world upload_url_ok upload_ok extraction_null)
              example_client (JStr ''https://storage.example/put/k1'') ''/tmp/plane2.png''),
      Slept 200]
     (extraction_request example_client
        [(''imageUrl'', JStr ''https://storage.example/f/k1''), (''outputType'', JStr ''raw'')])
     = Responded 200 JNull"
    by (simp add: example_transport_post extraction_null_def)
  show "validateStatus 200"
    by (simp add: validateStatus_def)
  show "process example_runtime (mock_world upload_url_ok upload_ok extraction_null)
       example_client ''/tmp/plane2.png'' None None None [] =
     ([Sent (upload_url_request example_runtime example_client ''/tmp/plane2.png'' 2048),
       Sent (upload_request example_runtime (mock_world upload_url_ok upload_ok extraction_null)
               example_client (JStr ''https://storage.example/put/k1'') ''/tmp/plane2.png''),
       Slept 200,
       Sent (extraction_request example_client
               [(''imageUrl'', JStr ''https://storage.example/f/k1''),
                (''outputType'', JStr ''raw'')])],
      Inl (new_Error (''Failed to process image: ''
                      @ message (new_TypeError ''null'' ''success''))))"
    by (simp add: example_process_after_upload imageToText_def io_defs build_payload_def
        axios_request_def example_transport_post extraction_null_def validateStatus_def
        check_extraction_def extraction_handler_def new_TypeError_def message_or_error_def
        default_arg_def)
qed

end
